theory Spec2Isabelle
  imports Main "HOL-Library.AList"
begin

section \<open>Python values, exceptions and string methods\<close>

text \<open>
  Tool arguments and configuration values arrive as decoded JSON, so they are dynamically
  typed. The JSON values null, true, false, integer and string are modelled; floats,
  lists and nested objects are not.

  A Python \<open>str\<close> is a \<open>string\<close> holding the bytes of its UTF-8 encoding, so a
  character is one byte below \<open>0x80\<close> or a lead byte followed by continuation bytes.
  The whitespace that \<open>strip\<close> removes is the whole list of the Unicode database, and
  lengths and slices count characters. Case conversion is written out for strings of
  ASCII characters. For a string with any other character it is decided by the tables of
  the Unicode database, which belong to the Python runtime and not to this repository:
  they are fields of the record \<open>runtime\<close>, a parameter of every function that converts
  case, and the theorems hold for every value of it. The record also holds \<open>int\<close> on
  strings.
\<close>

datatype pyval = PNone | PBool bool | PInt int | PStr string

text \<open>An exception is its class name and the text that \<open>str(e)\<close> gives.\<close>

datatype exn = Exn (exn_class: string) (exn_str: string)

fun truthy :: "pyval \<Rightarrow> bool" where
  "truthy PNone = False"
| "truthy (PBool b) = b"
| "truthy (PInt n) = (n \<noteq> 0)"
| "truthy (PStr s) = (s \<noteq> [])"

fun type_name :: "pyval \<Rightarrow> string" where
  "type_name PNone = ''NoneType''"
| "type_name (PBool b) = ''bool''"
| "type_name (PInt n) = ''int''"
| "type_name (PStr s) = ''str''"

text \<open>A name between single quotes, as Python's messages print it.\<close>

definition quoted :: "string \<Rightarrow> string" where
  "quoted s = [CHR 0x27] @ s @ [CHR 0x27]"

definition attribute_error :: "pyval \<Rightarrow> string \<Rightarrow> exn" where
  "attribute_error v attr =
     Exn ''AttributeError'' (quoted (type_name v) @ '' object has no attribute '' @ quoted attr)"

definition key_error :: "string \<Rightarrow> exn" where
  "key_error k = Exn ''KeyError'' (quoted k)"

definition digit_chars :: string where
  "digit_chars = ''0123456789''"

fun str_nat :: "nat \<Rightarrow> string" where
  "str_nat n = (if n < 10 then [digit_chars ! n] else str_nat (n div 10) @ [digit_chars ! (n mod 10)])"

definition str_int :: "int \<Rightarrow> string" where
  "str_int i = (if i < 0 then CHR ''-'' # str_nat (nat (- i)) else str_nat (nat i))"

text \<open>What an f-string substitutes for a value: \<open>str(v)\<close>.\<close>

fun fstr :: "pyval \<Rightarrow> string" where
  "fstr PNone = ''None''"
| "fstr (PBool b) = (if b then ''True'' else ''False'')"
| "fstr (PInt n) = str_int n"
| "fstr (PStr s) = s"

definition ascii_uppercase :: string where
  "ascii_uppercase = ''ABCDEFGHIJKLMNOPQRSTUVWXYZ''"

definition ascii_lowercase :: string where
  "ascii_lowercase = ''abcdefghijklmnopqrstuvwxyz''"

definition lower_char :: "char \<Rightarrow> char" where
  "lower_char c = (case map_of (zip ascii_uppercase ascii_lowercase) c of None \<Rightarrow> c | Some d \<Rightarrow> d)"

definition upper_char :: "char \<Rightarrow> char" where
  "upper_char c = (case map_of (zip ascii_lowercase ascii_uppercase) c of None \<Rightarrow> c | Some d \<Rightarrow> d)"

text \<open>
  The built-ins of the Python runtime that depend on the Unicode database or on the
  grammar of numerals: \<open>str.lower\<close>, \<open>str.upper\<close> and \<open>str.capitalize\<close> on a string that
  is not all ASCII, and \<open>int\<close> on a string.
\<close>

record runtime =
  py_lower :: "string \<Rightarrow> string"
  py_upper :: "string \<Rightarrow> string"
  py_capitalize :: "string \<Rightarrow> string"
  py_int_str :: "string \<Rightarrow> exn + int"

text \<open>A byte below \<open>0x80\<close> is an ASCII character: its top bit is clear.\<close>

definition is_ascii :: "string \<Rightarrow> bool" where
  "is_ascii s = list_all (\<lambda>c. \<not> digit7 c) s"

definition str_lower :: "runtime \<Rightarrow> string \<Rightarrow> string" where
  "str_lower R s = (if is_ascii s then map lower_char s else py_lower R s)"

definition str_upper :: "runtime \<Rightarrow> string \<Rightarrow> string" where
  "str_upper R s = (if is_ascii s then map upper_char s else py_upper R s)"

text \<open>\<open>str.capitalize\<close>: the first character upper-cased, the rest lower-cased.\<close>

definition str_capitalize :: "runtime \<Rightarrow> string \<Rightarrow> string" where
  "str_capitalize R s =
     (if is_ascii s
      then (case s of [] \<Rightarrow> [] | c # cs \<Rightarrow> upper_char c # map lower_char cs)
      else py_capitalize R s)"

text \<open>
  The characters for which \<open>str.isspace\<close> holds, each as its UTF-8 encoding: U+0009 to
  U+000D, U+001C to U+0020, U+0085, U+00A0, U+1680, U+2000 to U+200A, U+2028, U+2029,
  U+202F, U+205F and U+3000.
\<close>

definition whitespace :: "string list" where
  "whitespace =
     [[CHR 0x09], [CHR 0x0A], [CHR 0x0B], [CHR 0x0C], [CHR 0x0D],
      [CHR 0x1C], [CHR 0x1D], [CHR 0x1E], [CHR 0x1F], [CHR 0x20],
      [CHR 0xC2, CHR 0x85], [CHR 0xC2, CHR 0xA0], [CHR 0xE1, CHR 0x9A, CHR 0x80],
      [CHR 0xE2, CHR 0x80, CHR 0x80], [CHR 0xE2, CHR 0x80, CHR 0x81],
      [CHR 0xE2, CHR 0x80, CHR 0x82], [CHR 0xE2, CHR 0x80, CHR 0x83],
      [CHR 0xE2, CHR 0x80, CHR 0x84], [CHR 0xE2, CHR 0x80, CHR 0x85],
      [CHR 0xE2, CHR 0x80, CHR 0x86], [CHR 0xE2, CHR 0x80, CHR 0x87],
      [CHR 0xE2, CHR 0x80, CHR 0x88], [CHR 0xE2, CHR 0x80, CHR 0x89],
      [CHR 0xE2, CHR 0x80, CHR 0x8A], [CHR 0xE2, CHR 0x80, CHR 0xA8],
      [CHR 0xE2, CHR 0x80, CHR 0xA9], [CHR 0xE2, CHR 0x80, CHR 0xAF],
      [CHR 0xE2, CHR 0x81, CHR 0x9F], [CHR 0xE3, CHR 0x80, CHR 0x80]]"

text \<open>
  Removing from the front of a string every leading occurrence of one of the given
  sequences. An encoded character never starts inside another one, so with the
  encodings of the whitespace characters this removes the leading whitespace, and with
  their reversals, on the reversed string, the trailing whitespace.
\<close>

function lstrip :: "string list \<Rightarrow> string \<Rightarrow> string" where
  "lstrip ws s =
     (case find (\<lambda>w. w \<noteq> [] \<and> take (length w) s = w) ws of
        None \<Rightarrow> s
      | Some w \<Rightarrow> lstrip ws (drop (length w) s))"
  by pat_completeness auto
termination
proof (relation "measure (\<lambda>(ws, s). length s)")
  show "wf (measure (\<lambda>(ws, s). length s))" by simp
next
  fix ws :: "string list" and s w :: string
  assume "find (\<lambda>w. w \<noteq> [] \<and> take (length w) s = w) ws = Some w"
  then have w: "w \<noteq> []" "take (length w) s = w" by (auto simp: find_Some_iff)
  from w(2) have "length (take (length w) s) = length w" by simp
  then have "length w \<le> length s" by simp
  with w(1) have "length (drop (length w) s) < length s" by (cases w) auto
  then show "((ws, drop (length w) s), (ws, s)) \<in> measure (\<lambda>(ws, s). length s)" by simp
qed

declare lstrip.simps [simp del]

definition str_strip :: "string \<Rightarrow> string" where
  "str_strip s = rev (lstrip (map rev whitespace) (rev (lstrip whitespace s)))"

text \<open>
  \<open>len(s)\<close> and \<open>s[:n]\<close> count characters: a continuation byte (\<open>10xxxxxx\<close>) belongs to
  the character before it.
\<close>

definition continuation :: "char \<Rightarrow> bool" where
  "continuation c = (digit7 c \<and> \<not> digit6 c)"

definition str_len :: "string \<Rightarrow> nat" where
  "str_len s = length (filter (\<lambda>c. \<not> continuation c) s)"

fun str_take :: "nat \<Rightarrow> string \<Rightarrow> string" where
  "str_take n [] = []"
| "str_take n (c # cs) =
     (if continuation c then c # str_take n cs
      else (case n of 0 \<Rightarrow> [] | Suc m \<Rightarrow> c # str_take m cs))"

section \<open>Template store (templates.py)\<close>

definition story_text :: string where
  "story_text = ''**As a** [user type]\<newline>**I want** [goal]\<newline>**So that** [benefit]\<newline>\<newline>## Acceptance Criteria\<newline>- [ ] Criteria 1\<newline>- [ ] Criteria 2\<newline>- [ ] Criteria 3\<newline>\<newline>## Additional Notes\<newline>[Any additional context or notes]\<newline>''"

definition bug_text :: string where
  "bug_text = ''## Description\<newline>[Clear description of the bug]\<newline>\<newline>## Steps to Reproduce\<newline>1. Step 1\<newline>2. Step 2\<newline>3. Step 3\<newline>\<newline>## Expected Behavior\<newline>[What should happen]\<newline>\<newline>## Actual Behavior\<newline>[What actually happens]\<newline>\<newline>## Environment\<newline>- Browser/Device:\<newline>- Version:\<newline>- OS:\<newline>\<newline>## Additional Context\<newline>[Screenshots, logs, or other relevant information]\<newline>''"

definition task_text :: string where
  "task_text = ''## Objective\<newline>[What needs to be done]\<newline>\<newline>## Details\<newline>[Detailed description of the task]\<newline>\<newline>## Checklist\<newline>- [ ] Item 1\<newline>- [ ] Item 2\<newline>- [ ] Item 3\<newline>\<newline>## Dependencies\<newline>[Any dependencies or blockers]\<newline>''"

definition spike_text :: string where
  "spike_text = ''## Research Question\<newline>[What do we need to investigate?]\<newline>\<newline>## Context\<newline>[Why is this research needed?]\<newline>\<newline>## Goals\<newline>- Goal 1\<newline>- Goal 2\<newline>\<newline>## Expected Outcomes\<newline>[What deliverables/findings are expected?]\<newline>\<newline>## Time Box\<newline>[Time limit for this spike]\<newline>''"

definition epic_text :: string where
  "epic_text = ''## Vision\<newline>[High-level description of what this epic aims to achieve]\<newline>\<newline>## Goals\<newline>- Goal 1\<newline>- Goal 2\<newline>\<newline>## User Stories\<newline>[List of user stories that will be part of this epic]\<newline>\<newline>## Success Metrics\<newline>[How will we measure success?]\<newline>\<newline>## Timeline\<newline>[Expected timeline or milestones]\<newline>''"

text \<open>
  A Python \<open>dict\<close> keeps its keys in insertion order and an assignment to an existing key
  keeps the key's place: an association list under \<open>AList.update\<close>.
\<close>

type_synonym templates = "(string \<times> string) list"

record TemplateManager =
  default_templates :: templates
  custom_templates :: templates

definition get_default_templates :: templates where
  "get_default_templates =
     [(''story'', story_text), (''bug'', bug_text), (''task'', task_text),
      (''spike'', spike_text), (''epic'', epic_text)]"

text \<open>
  The custom directory, as the loader meets it: the entries in the order \<open>glob\<close> yields
  them, each a file name with what \<open>open\<close> and \<open>read\<close> give for it (the text, or the
  exception they raise).
\<close>

type_synonym dir_entry = "string \<times> (exn + string)"

text \<open>The pattern \<open>*.md\<close>.\<close>

definition glob_md :: "string \<Rightarrow> bool" where
  "glob_md name = (3 \<le> length name \<and> drop (length name - 3) name = ''.md'')"

text \<open>
  \<open>Path.stem\<close>: the name without its last suffix; a dot that starts or ends the name
  does not begin a suffix.
\<close>

definition stem :: "string \<Rightarrow> string" where
  "stem name =
     (let r = length (takeWhile (\<lambda>c. c \<noteq> CHR ''.'') (rev name))
      in if r < length name \<and> 0 < length name - r - 1 \<and> 0 < r
         then take (length name - r - 1) name else name)"

text \<open>
  The loop of \<open>_load_custom_templates\<close>. The \<open>try\<close> encloses the whole loop, so the
  first file that cannot be read ends it, and the templates read so far are returned.
\<close>

fun load_loop :: "dir_entry list \<Rightarrow> templates \<Rightarrow> templates" where
  "load_loop [] templates = templates"
| "load_loop ((name, content) # rest) templates =
     (if glob_md name
      then (case content of
              Inl e \<Rightarrow> templates
            | Inr text \<Rightarrow> load_loop rest (AList.update (stem name) text templates))
      else load_loop rest templates)"

definition load_custom_templates :: "dir_entry list \<Rightarrow> templates" where
  "load_custom_templates files = load_loop files []"

text \<open>\<open>TemplateManager.__init__\<close>; the directory is \<open>None\<close> when it does not exist.\<close>

definition TemplateManager_init :: "dir_entry list option \<Rightarrow> TemplateManager" where
  "TemplateManager_init custom_dir =
     \<lparr>default_templates = get_default_templates,
      custom_templates = (case custom_dir of None \<Rightarrow> [] | Some files \<Rightarrow> load_custom_templates files)\<rparr>"

definition get_template :: "runtime \<Rightarrow> TemplateManager \<Rightarrow> string \<Rightarrow> string option" where
  "get_template R self issue_type =
     (let issue_type = str_lower R issue_type
      in case map_of (custom_templates self) issue_type of
           Some t \<Rightarrow> Some t
         | None \<Rightarrow> map_of (default_templates self) issue_type)"

definition get_all_templates :: "TemplateManager \<Rightarrow> templates" where
  "get_all_templates self =
     fold (\<lambda>(k, v). AList.update k v) (custom_templates self) (default_templates self)"

definition list_templates :: "TemplateManager \<Rightarrow> string list" where
  "list_templates self = map fst (get_all_templates self)"

section \<open>Issue-tracker client adapter (jira_client.py)\<close>

text \<open>The configuration is the JSON object of the configuration file.\<close>

type_synonym config = "string \<rightharpoonup> pyval"

text \<open>
  The arguments \<open>_connect\<close> gives to the remote library's constructor \<open>JIRA(...)\<close>:
  the options, one of \<open>token_auth\<close> and \<open>basic_auth\<close>, \<open>get_server_info\<close> when it is
  passed, and the proxies.
\<close>

datatype auth = TokenAuth pyval | BasicAuth pyval pyval

record jira_args =
  opt_server :: pyval
  opt_check_update :: bool
  arg_auth :: auth
  arg_get_server_info :: "bool option"
  arg_proxies :: "(string \<times> pyval) list option"

text \<open>
  What the remote returns. An issue's optional fields are \<open>None\<close> when the attribute is
  missing or null; a priority or an issue type is modelled by its name.
\<close>

record remote_issue =
  r_key :: string
  r_summary :: string
  r_issuetype :: string
  r_status :: string
  r_priority :: "string option"
  r_description :: "string option"
  r_assignee :: "string option"

record remote_project =
  p_key :: string
  p_name :: string

text \<open>A value of the payload of \<open>create_issue\<close>: a text, \<open>{"key": k}\<close> or \<open>{"name": n}\<close>.\<close>

datatype field = Text string | Key string | Name string

type_synonym fields = "(string \<times> field) list"

text \<open>
  The connected \<open>JIRA\<close> object: each method of the remote API that the adapter calls, as
  the answer it gives (or the exception it raises) for its arguments.
\<close>

record JIRA =
  jira_create_issue :: "fields \<Rightarrow> exn + string"
  jira_projects :: "exn + remote_project list"
  jira_search_issues :: "string \<Rightarrow> int \<Rightarrow> string \<Rightarrow> exn + remote_issue list"
  jira_issue :: "pyval \<Rightarrow> exn + remote_issue"
  jira_project :: "pyval \<Rightarrow> exn + remote_project"
  jira_priorities :: "exn + string list"
  jira_issue_types :: "exn + string list"

record JiraClientWrapper =
  config :: config
  jira :: JIRA

text \<open>
  The world outside the process: the configuration file (absent, unreadable or a JSON
  object), the constructor of the remote library, the directory of custom templates, and
  the text of the validation library's error for a rejected argument mapping; and the
  built-ins of the Python runtime.
\<close>

record env =
  runtime :: runtime
  config_path :: string
  config_file :: "(exn + config) option"
  JIRA_new :: "jira_args \<Rightarrow> exn + JIRA"
  templates_dir :: "dir_entry list option"
  validation_text :: "(string \<rightharpoonup> pyval) \<Rightarrow> string"

definition load_config :: "env \<Rightarrow> exn + config" where
  \<open>load_config e =
     (case config_file e of
        None \<Rightarrow>
          Inl (Exn ''FileNotFoundError''
            (''Configuration file not found: '' @ config_path e @ ''\<newline>\<newline>'' @
             ''Please create ~/.jissue/config.json with the following structure:\<newline>'' @
             ''{\<newline>'' @
             ''  "jira_url": "https://your-domain.atlassian.net",\<newline>'' @
             ''  "email": "your-email@example.com",\<newline>'' @
             ''  "api_token": "your-api-token",\<newline>'' @
             ''  "default_project": "PROJ"\<newline>'' @
             ''}''))
      | Some r \<Rightarrow> r)\<close>

definition invalid_config :: exn where
  "invalid_config =
     Exn ''ValueError''
       (''Invalid config: must have either '' @ quoted ''token'' @ '' for token auth, '' @
        ''(email, api_token) for Cloud, or (username, password) for Data Center'')"

text \<open>
  \<open>_connect\<close>. The \<open>except\<close> clause logs and re-raises, so the exception that leaves it
  is the one that was raised.
\<close>

definition connect :: "(jira_args \<Rightarrow> exn + JIRA) \<Rightarrow> config \<Rightarrow> exn + JIRA" where
  "connect new cfg =
     (case cfg ''jira_url'' of
        None \<Rightarrow> Inl (key_error ''jira_url'')
      | Some url \<Rightarrow>
          (let proxies = (case cfg ''proxy'' of
                            None \<Rightarrow> None
                          | Some p \<Rightarrow> Some [(''http'', p), (''https'', p)])
           in (case cfg ''token'' of
                 Some t \<Rightarrow>
                   new \<lparr>opt_server = url, opt_check_update = False, arg_auth = TokenAuth t,
                        arg_get_server_info = Some False, arg_proxies = proxies\<rparr>
               | None \<Rightarrow>
                   (case (cfg ''email'', cfg ''api_token'') of
                      (Some em, Some tok) \<Rightarrow>
                        new \<lparr>opt_server = url, opt_check_update = False, arg_auth = BasicAuth em tok,
                             arg_get_server_info = None, arg_proxies = proxies\<rparr>
                    | _ \<Rightarrow>
                        (case (cfg ''username'', cfg ''password'') of
                           (Some u, Some pw) \<Rightarrow>
                             new \<lparr>opt_server = url, opt_check_update = False,
                                  arg_auth = BasicAuth u pw,
                                  arg_get_server_info = None, arg_proxies = proxies\<rparr>
                         | _ \<Rightarrow> Inl invalid_config)))))"

text \<open>\<open>JiraClientWrapper.__init__\<close>.\<close>

definition JiraClientWrapper_init :: "env \<Rightarrow> exn + JiraClientWrapper" where
  "JiraClientWrapper_init e =
     (case load_config e of
        Inl x \<Rightarrow> Inl x
      | Inr cfg \<Rightarrow>
          (case connect (JIRA_new e) cfg of
             Inl x \<Rightarrow> Inl x
           | Inr j \<Rightarrow> Inr \<lparr>config = cfg, jira = j\<rparr>))"

text \<open>\<open>raise Exception(f"{what}: {str(e)}")\<close>, the uniform error of the adapter.\<close>

definition wrapped :: "string \<Rightarrow> exn \<Rightarrow> exn" where
  "wrapped what e = Exn ''Exception'' (what @ '': '' @ exn_str e)"

definition issue_type_map :: "(string \<times> string) list" where
  "issue_type_map =
     [(''story'', ''Story''), (''bug'', ''Bug''), (''task'', ''Task''),
      (''spike'', ''Spike''), (''epic'', ''Epic''), (''subtask'', ''Sub-task'')]"

text \<open>The truth value of an argument of type \<open>str | None\<close>.\<close>

definition supplied :: "string option \<Rightarrow> bool" where
  "supplied v = (case v of None \<Rightarrow> False | Some s \<Rightarrow> s \<noteq> [])"

text \<open>The payload \<open>issue_dict\<close> that \<open>create_issue\<close> builds before the remote call.\<close>

definition issue_dict ::
  "runtime \<Rightarrow> string \<Rightarrow> string \<Rightarrow> string \<Rightarrow> string \<Rightarrow> string option \<Rightarrow> string option
     \<Rightarrow> fields" where
  "issue_dict R project issue_type summary description priority assignee =
     (let jira_issue_type =
            (case map_of issue_type_map (str_lower R issue_type) of
               Some v \<Rightarrow> v
             | None \<Rightarrow> str_capitalize R issue_type);
          d0 = [(''project'', Key project), (''summary'', Text summary),
                (''description'', Text description), (''issuetype'', Name jira_issue_type)];
          d1 = (if supplied priority
                then AList.update ''priority'' (Name (case priority of Some p \<Rightarrow> p | None \<Rightarrow> [])) d0
                else d0);
          d2 = (if supplied assignee
                then AList.update ''assignee'' (Name (case assignee of Some a \<Rightarrow> a | None \<Rightarrow> [])) d1
                else d1)
      in d2)"

definition create_issue ::
  "runtime \<Rightarrow> JiraClientWrapper \<Rightarrow> string \<Rightarrow> string \<Rightarrow> string \<Rightarrow> string
     \<Rightarrow> string option \<Rightarrow> string option \<Rightarrow> exn + string" where
  "create_issue R self project issue_type summary description priority assignee =
     (case jira_create_issue (jira self)
             (issue_dict R project issue_type summary description priority assignee) of
        Inl e \<Rightarrow> Inl (wrapped ''Failed to create Jira issue'' e)
      | Inr issue_key \<Rightarrow> Inr issue_key)"

definition get_issue_url :: "JiraClientWrapper \<Rightarrow> string \<Rightarrow> exn + string" where
  "get_issue_url self issue_key =
     (case config self ''jira_url'' of
        None \<Rightarrow> Inl (key_error ''jira_url'')
      | Some url \<Rightarrow> Inr (fstr url @ ''/browse/'' @ issue_key))"

definition get_projects :: "JiraClientWrapper \<Rightarrow> exn + (string \<times> string) list" where
  "get_projects self =
     (case jira_projects (jira self) of
        Inl e \<Rightarrow> Inl (wrapped ''Failed to get Jira projects'' e)
      | Inr projects \<Rightarrow> Inr (map (\<lambda>p. (p_key p, p_name p)) projects))"

fun str_join :: "string \<Rightarrow> string list \<Rightarrow> string" where
  "str_join sep [] = []"
| "str_join sep [x] = x"
| "str_join sep (x # y # ys) = x @ sep @ str_join sep (y # ys)"

text \<open>The test \<open>query and query.strip()\<close>; a true value that is not a string has no \<open>strip\<close>.\<close>

definition text_wanted :: "pyval \<Rightarrow> exn + bool" where
  "text_wanted query =
     (if truthy query
      then (case query of
              PStr s \<Rightarrow> Inr (str_strip s \<noteq> [])
            | _ \<Rightarrow> Inl (attribute_error query ''strip''))
      else Inr False)"

text \<open>The query string \<open>jql\<close> that \<open>search_issues\<close> builds before the remote call.\<close>

definition search_issues_jql :: "pyval \<Rightarrow> pyval \<Rightarrow> exn + string" where
  \<open>search_issues_jql query project =
     (case text_wanted query of
        Inl e \<Rightarrow> Inl e
      | Inr wanted \<Rightarrow>
          (let jql_parts =
                 (if wanted
                  then [''(summary ~ "'' @ fstr query @ ''" OR description ~ "'' @ fstr query @ ''")'']
                  else []) @
                 (if truthy project then [''project = '' @ fstr project] else [])
           in Inr (if jql_parts = []
                   then ''ORDER BY updated DESC''
                   else str_join '' AND '' jql_parts @ '' ORDER BY updated DESC'')))\<close>

record issue_info =
  i_key :: string
  i_summary :: string
  i_type :: string
  i_status :: string
  i_priority :: "string option"
  i_description :: string
  i_assignee :: "string option"
  i_url :: string

definition issue_to_dict :: "JiraClientWrapper \<Rightarrow> remote_issue \<Rightarrow> exn + issue_info" where
  "issue_to_dict self issue =
     (case get_issue_url self (r_key issue) of
        Inl e \<Rightarrow> Inl e
      | Inr url \<Rightarrow>
          Inr \<lparr>i_key = r_key issue, i_summary = r_summary issue, i_type = r_issuetype issue,
               i_status = r_status issue, i_priority = r_priority issue,
               i_description = (case r_description issue of None \<Rightarrow> [] | Some d \<Rightarrow> d),
               i_assignee = r_assignee issue, i_url = url\<rparr>)"

fun convert_issues :: "JiraClientWrapper \<Rightarrow> remote_issue list \<Rightarrow> exn + issue_info list" where
  "convert_issues self [] = Inr []"
| "convert_issues self (issue # issues) =
     (case issue_to_dict self issue of
        Inl e \<Rightarrow> Inl e
      | Inr d \<Rightarrow>
          (case convert_issues self issues of
             Inl e \<Rightarrow> Inl e
           | Inr ds \<Rightarrow> Inr (d # ds)))"

definition search_fields :: string where
  "search_fields = ''summary,issuetype,status,priority,description,assignee''"

definition search_issues ::
  "JiraClientWrapper \<Rightarrow> pyval \<Rightarrow> pyval \<Rightarrow> int \<Rightarrow> exn + issue_info list" where
  "search_issues self query project max_results =
     (case (case search_issues_jql query project of
              Inl e \<Rightarrow> Inl e
            | Inr jql \<Rightarrow>
                (case jira_search_issues (jira self) jql max_results search_fields of
                   Inl e \<Rightarrow> Inl e
                 | Inr issues \<Rightarrow> convert_issues self issues)) of
        Inl e \<Rightarrow> Inl (wrapped ''Failed to search Jira issues'' e)
      | Inr result \<Rightarrow> Inr result)"

definition get_issue :: "JiraClientWrapper \<Rightarrow> pyval \<Rightarrow> exn + issue_info" where
  "get_issue self issue_key =
     (case (case jira_issue (jira self) issue_key of
              Inl e \<Rightarrow> Inl e
            | Inr issue \<Rightarrow> issue_to_dict self issue) of
        Inl e \<Rightarrow> Inl (wrapped (''Failed to get Jira issue '' @ fstr issue_key) e)
      | Inr result \<Rightarrow> Inr result)"

record project_metadata =
  m_project :: "string \<times> string"
  m_priorities :: "string list"
  m_issue_types :: "string list"

definition get_project_metadata :: "JiraClientWrapper \<Rightarrow> pyval \<Rightarrow> exn + project_metadata" where
  "get_project_metadata self project_key =
     (case (case jira_project (jira self) project_key of
              Inl e \<Rightarrow> Inl e
            | Inr project \<Rightarrow>
                (case jira_priorities (jira self) of
                   Inl e \<Rightarrow> Inl e
                 | Inr priorities \<Rightarrow>
                     (case jira_issue_types (jira self) of
                        Inl e \<Rightarrow> Inl e
                      | Inr issue_types \<Rightarrow>
                          Inr \<lparr>m_project = (p_key project, p_name project),
                               m_priorities = priorities,
                               m_issue_types = issue_types\<rparr>))) of
        Inl e \<Rightarrow> Inl (wrapped ''Failed to get project metadata'' e)
      | Inr result \<Rightarrow> Inr result)"

section \<open>Tool dispatcher (server.py)\<close>

datatype TextContent = TextContent (content_type: string) (content_text: string)

type_synonym arguments = "string \<rightharpoonup> pyval"

record IssueInput =
  in_project :: string
  in_issue_type :: string
  in_summary :: string
  in_description :: string
  in_priority :: "string option"
  in_assignee :: "string option"

text \<open>
  The validation of \<open>IssueInput(**args)\<close>: a field declared \<open>str\<close> must be present and a
  string; a field declared \<open>str | None\<close> with default \<open>None\<close> may be absent, null or a
  string. Other keys are ignored.
\<close>

definition optional_str :: "pyval option \<Rightarrow> string option option" where
  "optional_str v =
     (case v of
        None \<Rightarrow> Some None
      | Some PNone \<Rightarrow> Some None
      | Some (PStr s) \<Rightarrow> Some (Some s)
      | _ \<Rightarrow> None)"

definition IssueInput_new :: "env \<Rightarrow> arguments \<Rightarrow> exn + IssueInput" where
  "IssueInput_new e args =
     (case (args ''project'', args ''issue_type'', args ''summary'', args ''description'',
            optional_str (args ''priority''), optional_str (args ''assignee'')) of
        (Some (PStr p), Some (PStr t), Some (PStr s), Some (PStr d), Some pr, Some a) \<Rightarrow>
          Inr \<lparr>in_project = p, in_issue_type = t, in_summary = s, in_description = d,
               in_priority = pr, in_assignee = a\<rparr>
      | _ \<Rightarrow> Inl (Exn ''ValidationError'' (validation_text e args)))"

record JissueServer =
  template_manager :: TemplateManager
  jira_client :: "JiraClientWrapper option"

definition JissueServer_init :: "env \<Rightarrow> JissueServer" where
  "JissueServer_init e =
     \<lparr>template_manager = TemplateManager_init (templates_dir e), jira_client = None\<rparr>"

text \<open>
  A handler returns its text blocks or the exception it raises, and the server as it
  leaves it: the client reference is set by the first handler that connects.
\<close>

type_synonym handler =
  "env \<Rightarrow> JissueServer \<Rightarrow> arguments \<Rightarrow> (exn + TextContent list) \<times> JissueServer"

text \<open>\<open>if self.jira_client is None: self.jira_client = JiraClientWrapper()\<close>.\<close>

definition ensure_client :: "env \<Rightarrow> JissueServer \<Rightarrow> (exn + JiraClientWrapper) \<times> JissueServer" where
  "ensure_client e self =
     (case jira_client self of
        Some c \<Rightarrow> (Inr c, self)
      | None \<Rightarrow>
          (case JiraClientWrapper_init e of
             Inl x \<Rightarrow> (Inl x, self)
           | Inr c \<Rightarrow> (Inr c, self\<lparr>jira_client := Some c\<rparr>)))"

text \<open>What an f-string substitutes for a value of type \<open>str | None\<close>.\<close>

definition fstr_opt :: "string option \<Rightarrow> string" where
  "fstr_opt v = (case v of None \<Rightarrow> ''None'' | Some s \<Rightarrow> s)"

definition get_issue_templates_tool :: handler where
  "get_issue_templates_tool e self args =
     (let issue_type = (case args ''issue_type'' of None \<Rightarrow> PNone | Some v \<Rightarrow> v)
      in if truthy issue_type
         then (case issue_type of
                 PStr s \<Rightarrow>
                   (let template = get_template (runtime e) (template_manager self) s;
                        result =
                          (if supplied template
                           then ''# '' @ str_upper (runtime e) s @ '' Template\<newline>\<newline>'' @ fstr_opt template
                           else ''No template found for issue type: '' @ s @
                                ''\<newline>\<newline>Available types: '' @
                                str_join '', '' (list_templates (template_manager self)))
                    in (Inr [TextContent ''text'' result], self))
               | _ \<Rightarrow> (Inl (attribute_error issue_type ''lower''), self))
         else (let templates = get_all_templates (template_manager self);
                   result =
                     ''# Available Issue Templates\<newline>\<newline>'' @
                     concat (map (\<lambda>(itype, template).
                                    ''## '' @ str_upper (runtime e) itype @ ''\<newline>\<newline>'' @ template @
                                    ''\<newline>\<newline>---\<newline>\<newline>'') templates)
               in (Inr [TextContent ''text'' result], self)))"

text \<open>The three characters that open the message of a created issue, in UTF-8.\<close>

definition created_mark :: string where
  "created_mark = [CHR 0xC3, CHR 0xA2, CHR 0xC5, CHR 0x93, CHR 0xE2, CHR 0x80, CHR 0x9C]"

definition create_jira_issue_tool :: handler where
  "create_jira_issue_tool e self args =
     (case IssueInput_new e args of
        Inl x \<Rightarrow> (Inl x, self)
      | Inr issue_input \<Rightarrow>
          (case ensure_client e self of
             (Inl x, self') \<Rightarrow> (Inl x, self')
           | (Inr c, self') \<Rightarrow>
               (case create_issue (runtime e) c (in_project issue_input)
                       (in_issue_type issue_input)
                       (in_summary issue_input) (in_description issue_input)
                       (in_priority issue_input) (in_assignee issue_input) of
                  Inl x \<Rightarrow> (Inl x, self')
                | Inr issue_key \<Rightarrow>
                    (case get_issue_url c issue_key of
                       Inl x \<Rightarrow> (Inl x, self')
                     | Inr issue_url \<Rightarrow>
                         (Inr [TextContent ''text''
                                 (created_mark @ '' Created Jira issue: '' @ issue_key @
                                  ''\<newline>\<newline>URL: '' @ issue_url @
                                  ''\<newline>\<newline>Summary: '' @ in_summary issue_input)],
                          self')))))"

definition get_jira_projects_tool :: handler where
  "get_jira_projects_tool e self args =
     (case ensure_client e self of
        (Inl x, self') \<Rightarrow> (Inl x, self')
      | (Inr c, self') \<Rightarrow>
          (case get_projects c of
             Inl x \<Rightarrow> (Inl x, self')
           | Inr projects \<Rightarrow>
               (Inr [TextContent ''text''
                       (''# Available Jira Projects\<newline>\<newline>'' @
                        concat (map (\<lambda>(k, n). ''- **'' @ k @ ''**: '' @ n @ ''\<newline>'') projects))],
                self')))"

text \<open>
  \<open>int(max_results)\<close>: an integer is itself, a boolean is 0 or 1, \<open>None\<close> is a
  \<open>TypeError\<close>, and a string is read by the runtime.
\<close>

fun py_int :: "runtime \<Rightarrow> pyval \<Rightarrow> exn + int" where
  "py_int R (PInt n) = Inr n"
| "py_int R (PBool b) = Inr (if b then 1 else 0)"
| "py_int R PNone =
     Inl (Exn ''TypeError''
            (''int() argument must be a string, a bytes-like object or a real number, not '' @
             quoted ''NoneType''))"
| "py_int R (PStr s) = py_int_str R s"

text \<open>The block of one found issue; a description is cut to its first 200 characters.\<close>

definition found_issue_text :: "issue_info \<Rightarrow> string" where
  "found_issue_text issue =
     ''## '' @ i_key issue @ '': '' @ i_summary issue @ ''\<newline>'' @
     ''**Type:** '' @ i_type issue @ '' | **Status:** '' @ i_status issue @
     '' | **Priority:** '' @ fstr_opt (i_priority issue) @ ''\<newline>'' @
     ''**URL:** '' @ i_url issue @ ''\<newline>'' @
     (if i_description issue \<noteq> []
      then ''**Description:** '' @ str_take 200 (i_description issue) @
           (if 200 < str_len (i_description issue) then ''...'' else []) @ ''\<newline>''
      else []) @
     ''\<newline>---\<newline>\<newline>''"

definition search_jira_issues_tool :: handler where
  "search_jira_issues_tool e self args =
     (case ensure_client e self of
        (Inl x, self') \<Rightarrow> (Inl x, self')
      | (Inr c, self') \<Rightarrow>
          (case args ''query'' of
             None \<Rightarrow> (Inl (key_error ''query''), self')
           | Some query \<Rightarrow>
               (let project = (case args ''project'' of None \<Rightarrow> PNone | Some v \<Rightarrow> v);
                    max_results = (case args ''max_results'' of None \<Rightarrow> PInt 10 | Some v \<Rightarrow> v)
                in (case py_int (runtime e) max_results of
                      Inl x \<Rightarrow> (Inl x, self')
                    | Inr n \<Rightarrow>
                        (case search_issues c query project n of
                           Inl x \<Rightarrow> (Inl x, self')
                         | Inr issues \<Rightarrow>
                             (Inr [TextContent ''text''
                                     (if issues = []
                                      then ''No issues found matching: '' @ fstr query
                                      else ''# Found '' @ str_nat (length issues) @
                                           '' issue(s)\<newline>\<newline>'' @
                                           concat (map found_issue_text issues))],
                              self'))))))"

definition get_jira_issue_tool :: handler where
  "get_jira_issue_tool e self args =
     (case ensure_client e self of
        (Inl x, self') \<Rightarrow> (Inl x, self')
      | (Inr c, self') \<Rightarrow>
          (case args ''issue_key'' of
             None \<Rightarrow> (Inl (key_error ''issue_key''), self')
           | Some issue_key \<Rightarrow>
               (case get_issue c issue_key of
                  Inl x \<Rightarrow> (Inl x, self')
                | Inr issue \<Rightarrow>
                    (Inr [TextContent ''text''
                            (''# '' @ i_key issue @ '': '' @ i_summary issue @ ''\<newline>\<newline>'' @
                             ''**Type:** '' @ i_type issue @ ''\<newline>'' @
                             ''**Status:** '' @ i_status issue @ ''\<newline>'' @
                             ''**Priority:** '' @ fstr_opt (i_priority issue) @ ''\<newline>'' @
                             ''**Assignee:** '' @ fstr_opt (i_assignee issue) @ ''\<newline>'' @
                             ''**URL:** '' @ i_url issue @ ''\<newline>\<newline>'' @
                             ''## Description\<newline>\<newline>'' @ i_description issue @ ''\<newline>'')],
                     self'))))"

definition get_project_metadata_tool :: handler where
  "get_project_metadata_tool e self args =
     (case ensure_client e self of
        (Inl x, self') \<Rightarrow> (Inl x, self')
      | (Inr c, self') \<Rightarrow>
          (case args ''project_key'' of
             None \<Rightarrow> (Inl (key_error ''project_key''), self')
           | Some project_key \<Rightarrow>
               (case get_project_metadata c project_key of
                  Inl x \<Rightarrow> (Inl x, self')
                | Inr metadata \<Rightarrow>
                    (Inr [TextContent ''text''
                            (''# '' @ fst (m_project metadata) @ '' - '' @
                             snd (m_project metadata) @ ''\<newline>\<newline>'' @
                             ''## Available Priorities\<newline>'' @
                             concat (map (\<lambda>priority. ''- '' @ priority @ ''\<newline>'')
                                       (m_priorities metadata)) @
                             ''\<newline>## Available Issue Types\<newline>'' @
                             concat (map (\<lambda>issue_type. ''- '' @ issue_type @ ''\<newline>'')
                                       (m_issue_types metadata)))],
                     self'))))"

text \<open>The table of \<open>call_tool\<close>: the six tool names and their handlers.\<close>

definition handlers :: "(string \<times> handler) list" where
  "handlers =
     [(''get_issue_templates'', get_issue_templates_tool),
      (''create_jira_issue'', create_jira_issue_tool),
      (''get_jira_projects'', get_jira_projects_tool),
      (''search_jira_issues'', search_jira_issues_tool),
      (''get_jira_issue'', get_jira_issue_tool),
      (''get_project_metadata'', get_project_metadata_tool)]"

text \<open>
  The body of the \<open>try\<close> in \<open>call_tool\<close>, then \<open>call_tool\<close> itself: the \<open>except\<close> clause
  turns every exception of the body into one text block.
\<close>

definition call_tool_body ::
  "env \<Rightarrow> JissueServer \<Rightarrow> string \<Rightarrow> arguments \<Rightarrow> (exn + TextContent list) \<times> JissueServer" where
  "call_tool_body e self name args =
     (case map_of handlers name of
        None \<Rightarrow> (Inl (Exn ''ValueError'' (''Unknown tool: '' @ name)), self)
      | Some handler \<Rightarrow> handler e self args)"

definition call_tool ::
  "env \<Rightarrow> JissueServer \<Rightarrow> string \<Rightarrow> arguments \<Rightarrow> TextContent list \<times> JissueServer" where
  "call_tool e self name args =
     (case call_tool_body e self name args of
        (Inl x, self') \<Rightarrow> ([TextContent ''text'' (''Error: '' @ exn_str x)], self')
      | (Inr contents, self') \<Rightarrow> (contents, self'))"

section \<open>Sample inputs\<close>

text \<open>
  Concrete inputs at which the theorems below are instantiated: a custom template
  directory with an override of a default, a stem in capitals and an unreadable file; a
  remote whose search fails; configurations with several credential shapes and with none.
\<close>

text \<open>
  Strings with a character outside ASCII, as UTF-8: \<open>TAS\<close> followed by U+212A, the
  letter U+2102 alone, and \<open>clair\<close> after U+00E9.
\<close>

definition kelvin_task :: string where
  "kelvin_task = ''TAS'' @ [CHR 0xE2, CHR 0x84, CHR 0xAA]"


definition eclair :: string where
  "eclair = [CHR 0xC3, CHR 0xA9] @ ''clair''"

definition broken_first_dir :: "dir_entry list" where
  "broken_first_dir =
     [(''broken.md'', Inl (Exn ''PermissionError'' ''Permission denied'')),
      (''bug.md'', Inr ''custom bug'')]"


definition sample_dir :: "dir_entry list" where
  "sample_dir =
     [(''notes.txt'', Inr ''not a template''),
      (''bug.md'', Inr ''custom bug''),
      (''Bug.md'', Inr ''shouting bug''),
      (''broken.md'', Inl (Exn ''PermissionError'' ''Permission denied'')),
      (''task.md'', Inr ''never read'')]"

definition sample_project :: remote_project where
  "sample_project = \<lparr>p_key = ''PROJ'', p_name = ''Project''\<rparr>"

definition sample_jira :: JIRA where
  "sample_jira =
     \<lparr>jira_create_issue = (\<lambda>payload. Inr ''PROJ-1''),
      jira_projects = Inr [sample_project],
      jira_search_issues = (\<lambda>jql n fs. Inl (Exn ''JIRAError'' ''HTTP 400'')),
      jira_issue = (\<lambda>k. Inl (Exn ''JIRAError'' ''Issue Does Not Exist'')),
      jira_project = (\<lambda>k. if k = PStr ''PROJ'' then Inr sample_project
                           else Inl (Exn ''JIRAError'' ''No project could be found'')),
      jira_priorities = Inr [''High'', ''Low''],
      jira_issue_types = Inr [''Bug'', ''Task'']\<rparr>"

definition sample_new :: "jira_args \<Rightarrow> exn + JIRA" where
  "sample_new a =
     (if arg_auth a = TokenAuth (PStr ''tok'')
         \<or> arg_auth a = BasicAuth (PStr ''me@example.com'') (PStr ''api'')
      then Inr sample_jira
      else Inl (Exn ''JIRAError'' ''HTTP 401''))"

definition sample_url :: pyval where
  "sample_url = PStr ''https://jira.example.com''"

definition config_all_shapes :: config where
  "config_all_shapes =
     map_of [(''jira_url'', sample_url), (''default_project'', PStr ''PROJ''),
             (''token'', PStr ''tok''),
             (''email'', PStr ''me@example.com''), (''api_token'', PStr ''api''),
             (''username'', PStr ''me''), (''password'', PStr ''pw'')]"

definition config_two_basic :: config where
  "config_two_basic =
     map_of [(''jira_url'', sample_url),
             (''email'', PStr ''me@example.com''), (''api_token'', PStr ''api''),
             (''username'', PStr ''me''), (''password'', PStr ''pw'')]"

definition config_half_cloud :: config where
  "config_half_cloud =
     map_of [(''jira_url'', sample_url),
             (''email'', PStr ''me@example.com''),
             (''username'', PStr ''me''), (''password'', PStr ''pw'')]"

definition config_no_shape :: config where
  "config_no_shape =
     map_of [(''jira_url'', sample_url), (''default_project'', PStr ''PROJ''),
             (''email'', PStr ''me@example.com'')]"

definition sample_client :: JiraClientWrapper where
  "sample_client = \<lparr>config = config_all_shapes, jira = sample_jira\<rparr>"

text \<open>
  A runtime for the examples. On the strings the examples use it answers as Python
  does: \<open>TAS\<close> followed by U+212A (the Kelvin sign) lower-cases to \<open>task\<close>; U+2102, the
  capital letter DOUBLE-STRUCK CAPITAL C, has no lower-case form and is left as it is;
  \<open>clair\<close> after U+00E9 is capitalized to \<open>clair\<close> after U+00C9; \<open>1_0\<close> reads as 10.
\<close>

definition sample_runtime :: runtime where
  "sample_runtime =
     \<lparr>py_lower = (\<lambda>s. if s = kelvin_task then ''task'' else map lower_char s),
      py_upper = (\<lambda>s. map upper_char s),
      py_capitalize = (\<lambda>s. if s = eclair then [CHR 0xC3, CHR 0x89] @ ''clair''
                           else (case s of [] \<Rightarrow> []
                                 | c # cs \<Rightarrow> upper_char c # map lower_char cs)),
      py_int_str = (\<lambda>s. if s = ''1_0'' then Inr 10
                        else Inl (Exn ''ValueError''
                                    (''invalid literal for int() with base 10: '' @ quoted s)))\<rparr>"

definition sample_env :: env where
  "sample_env =
     \<lparr>runtime = sample_runtime,
      config_path = ''/home/me/.jissue/config.json'',
      config_file = Some (Inr config_all_shapes),
      JIRA_new = sample_new,
      templates_dir = Some sample_dir,
      validation_text = (\<lambda>args. ''1 validation error for IssueInput'')\<rparr>"

definition sample_server :: JissueServer where
  "sample_server = JissueServer_init sample_env"

definition no_arguments :: arguments where
  "no_arguments = Map.empty"

definition search_arguments :: arguments where
  "search_arguments = map_of [(''query'', PStr ''login''), (''project'', PStr ''PROJ'')]"

section \<open>Facts about the template store\<close>

lemma glob_md_iff: "glob_md n \<longleftrightarrow> (\<exists>pre. n = pre @ ''.md'')"
proof
  assume g: "glob_md n"
  then have "n = take (length n - 3) n @ drop (length n - 3) n" by simp
  with g show "\<exists>pre. n = pre @ ''.md''" unfolding glob_md_def by metis
next
  assume "\<exists>pre. n = pre @ ''.md''"
  then show "glob_md n" by (auto simp: glob_md_def)
qed

lemma stem_md: "stem (pre @ ''.md'') = (if pre = [] then ''.md'' else pre)"
  by (simp add: stem_def Let_def)

lemma glob_md_name: "glob_md n \<Longrightarrow> stem n \<noteq> ''.md'' \<Longrightarrow> n = stem n @ ''.md''"
  by (auto simp: glob_md_iff stem_md split: if_splits)

lemma load_loop_other:
  "\<forall>e \<in> set post. glob_md (fst e) \<longrightarrow> stem (fst e) \<noteq> S \<Longrightarrow>
   map_of (load_loop post acc) S = map_of acc S"
proof (induction post arbitrary: acc)
  case Nil
  then show ?case by simp
next
  case (Cons e post)
  obtain n r where e: "e = (n, r)" by (cases e)
  show ?case using Cons by (auto simp: e update_conv' split: sum.splits)
qed

lemma load_loop_append:
  "\<forall>e \<in> set pre. glob_md (fst e) \<longrightarrow> \<not> isl (snd e) \<Longrightarrow>
   load_loop (pre @ rest) acc = load_loop rest (load_loop pre acc)"
proof (induction pre arbitrary: acc)
  case Nil
  then show ?case by simp
next
  case (Cons e pre)
  obtain n r where e: "e = (n, r)" by (cases e)
  show ?case using Cons by (auto simp: e split: sum.splits)
qed

lemma load_loop_stored:
  assumes "glob_md name" and "stem name \<noteq> ''.md''"
    and "\<forall>e \<in> set pre. glob_md (fst e) \<longrightarrow> \<not> isl (snd e)"
    and "name \<notin> fst ` set post"
  shows "map_of (load_loop (pre @ (name, Inr c) # post) acc) (stem name) = Some c"
proof -
  have other: "\<forall>e \<in> set post. glob_md (fst e) \<longrightarrow> stem (fst e) \<noteq> stem name"
  proof (intro ballI impI notI)
    fix e assume e: "e \<in> set post" and g: "glob_md (fst e)" and s: "stem (fst e) = stem name"
    from g s assms(2) have "fst e = stem name @ ''.md''" using glob_md_name by fastforce
    moreover from assms(1,2) have "name = stem name @ ''.md''" by (rule glob_md_name)
    ultimately have "fst e = name" by simp
    with e assms(4) show False by force
  qed
  show ?thesis
    using assms(1) by (simp add: load_loop_append [OF assms(3)] load_loop_other [OF other] update_conv')
qed


lemma fold_update_keys:
  "fst ` set (fold (\<lambda>(k, v). AList.update k v) cs ds) = fst ` set ds \<union> fst ` set cs"
proof (induction cs arbitrary: ds)
  case Nil
  then show ?case by simp
next
  case (Cons e cs)
  obtain k v where e: "e = (k, v)" by (cases e)
  have "fst ` set (fold (\<lambda>(k, v). AList.update k v) (e # cs) ds)
        = fst ` set (AList.update k v ds) \<union> fst ` set cs"
    by (simp add: e Cons.IH)
  also have "\<dots> = ({k} \<union> fst ` set ds) \<union> fst ` set cs"
    by (simp only: dom_update)
  finally show ?case by (simp add: e Un_commute Un_left_commute insert_commute)
qed

lemma fold_update_distinct:
  "distinct (map fst ds) \<Longrightarrow> distinct (map fst (fold (\<lambda>(k, v). AList.update k v) cs ds))"
proof (induction cs arbitrary: ds)
  case Nil
  then show ?case by simp
next
  case (Cons e cs)
  obtain k v where e: "e = (k, v)" by (cases e)
  from Cons.prems have "distinct (map fst (AList.update k v ds))" by (rule distinct_update)
  then show ?case by (simp add: e Cons.IH)
qed



lemma count_list_distinct: "distinct xs \<Longrightarrow> x \<in> set xs \<Longrightarrow> count_list xs x = 1"
  by (induction xs) (auto simp: count_list_0_iff)




lemma str_lower_bug: "str_lower R ''bug'' = ''bug''"
  by (simp add: str_lower_def is_ascii_def lower_char_def ascii_uppercase_def ascii_lowercase_def)

lemma default_keys: "map fst get_default_templates = [''story'', ''bug'', ''task'', ''spike'', ''epic'']"
  by (simp add: get_default_templates_def)

lemma custom_of_init:
  "custom_templates (TemplateManager_init (Some files)) = load_loop files []"
  by (simp add: TemplateManager_init_def load_custom_templates_def)

lemma default_of_init: "default_templates (TemplateManager_init d) = get_default_templates"
  by (simp add: TemplateManager_init_def)

lemma list_templates_distinct: "distinct (list_templates (TemplateManager_init d))"
proof -
  have "distinct (map fst get_default_templates)" by (simp add: default_keys)
  then show ?thesis
    unfolding list_templates_def get_all_templates_def default_of_init
    by (rule fold_update_distinct)
qed

lemma list_templates_keys:
  "set (list_templates tm) = fst ` set (default_templates tm) \<union> fst ` set (custom_templates tm)"
  by (simp add: list_templates_def get_all_templates_def fold_update_keys)


section \<open>Template override precedence\<close>

text \<open>
  When the custom directory holds a readable file \<open>bug.md\<close> with text \<open>c\<close> and the
  loader reaches it (no file matching \<open>*.md\<close> before it fails to read),
  \<open>get_template("bug")\<close> returns exactly \<open>c\<close>, the custom text and nothing of the
  default, and \<open>list_templates()\<close> contains \<open>bug\<close> exactly once.
\<close>

lemma reached_bug_shadows_default:
  assumes "\<forall>e \<in> set pre. glob_md (fst e) \<longrightarrow> \<not> isl (snd e)"
    and "''bug.md'' \<notin> fst ` set post"
    and "tm = TemplateManager_init (Some (pre @ (''bug.md'', Inr c) # post))"
  shows "map_of (default_templates tm) ''bug'' = Some bug_text
       \<and> get_template R tm ''bug'' = Some c
       \<and> count_list (list_templates tm) ''bug'' = 1"
proof -
  have st: "stem ''bug.md'' = ''bug''" using stem_md [of "''bug''"] by simp
  have g: "glob_md ''bug.md''" by (simp add: glob_md_def)
  have "map_of (load_loop (pre @ (''bug.md'', Inr c) # post) []) (stem ''bug.md'') = Some c"
    using g _ assms(1,2) by (rule load_loop_stored) (simp add: st)
  then have custom: "map_of (custom_templates tm) ''bug'' = Some c"
    by (simp add: assms(3) custom_of_init st)
  have 1: "map_of (default_templates tm) ''bug'' = Some bug_text"
    by (simp add: assms(3) default_of_init get_default_templates_def)
  have 2: "get_template R tm ''bug'' = Some c"
    by (simp add: get_template_def str_lower_bug custom)
  have "''bug'' \<in> set (list_templates tm)"
    by (simp add: list_templates_keys assms(3) default_of_init get_default_templates_def)
  moreover have "distinct (list_templates tm)"
    unfolding assms(3) by (rule list_templates_distinct)
  ultimately have 3: "count_list (list_templates tm) ''bug'' = 1"
    by (simp add: count_list_distinct)
  from 1 2 3 show ?thesis by simp
qed

text \<open>
  Claim C5 fails on the code when a file matching \<open>*.md\<close> that cannot be read comes
  before \<open>bug.md\<close> in the directory. The \<open>try\<close> of \<open>_load_custom_templates\<close> encloses
  the whole loop, so the first failure ends the loading: \<open>bug.md\<close>, present and
  readable, is never read, and \<open>get_template("bug")\<close> returns the built-in template,
  where the claim, and the docstring of \<open>get_template\<close> (custom templates override
  default templates), have the custom text. \<open>list_templates()\<close> still contains \<open>bug\<close>
  exactly once.
\<close>

theorem unreadable_file_hides_bug_override:
  "(''bug.md'', Inr ''custom bug'') \<in> set broken_first_dir
   \<and> map_of (default_templates (TemplateManager_init (Some broken_first_dir))) ''bug''
       = Some bug_text
   \<and> custom_templates (TemplateManager_init (Some broken_first_dir)) = []
   \<and> get_template sample_runtime (TemplateManager_init (Some broken_first_dir)) ''bug''
       = Some bug_text
   \<and> count_list (list_templates (TemplateManager_init (Some broken_first_dir))) ''bug'' = 1"
proof -
  have c: "custom_templates (TemplateManager_init (Some broken_first_dir)) = []"
    by (simp add: custom_of_init broken_first_dir_def glob_md_def)
  have d: "map_of (default_templates (TemplateManager_init (Some broken_first_dir))) ''bug''
           = Some bug_text"
    by (simp add: default_of_init get_default_templates_def)
  have g: "get_template sample_runtime (TemplateManager_init (Some broken_first_dir)) ''bug''
           = Some bug_text"
    by (simp add: get_template_def str_lower_bug c d)
  have "''bug'' \<in> set (list_templates (TemplateManager_init (Some broken_first_dir)))"
    by (simp add: list_templates_keys default_of_init get_default_templates_def)
  then have l: "count_list (list_templates (TemplateManager_init (Some broken_first_dir))) ''bug'' = 1"
    using list_templates_distinct by (simp add: count_list_distinct)
  from c d g l show ?thesis by (simp add: broken_first_dir_def)
qed

section \<open>Custom templates whose stem has a capital letter\<close>







section \<open>Dispatch of an unknown tool name\<close>

lemma handlers_unknown:
  assumes "name \<notin> {''get_issue_templates'', ''create_jira_issue'', ''get_jira_projects'',
                    ''search_jira_issues'', ''get_jira_issue'', ''get_project_metadata''}"
  shows "map_of handlers name = None"
  using assms by (simp add: handlers_def)

text \<open>
  Claim C1, as stated: for a name outside the table, the response is the one text block
  \<open>Unknown tool: {name}\<close>. It fails: the \<open>ValueError\<close> raised for the unknown name is
  caught by the \<open>except\<close> clause of \<open>call_tool\<close>, which prefixes \<open>Error: \<close>.
\<close>

theorem unknown_tool_counterexample:
  "''frobnicate'' \<notin> set (map fst handlers)
   \<and> fst (call_tool sample_env sample_server ''frobnicate'' no_arguments)
       = [TextContent ''text'' ''Error: Unknown tool: frobnicate'']
   \<and> fst (call_tool sample_env sample_server ''frobnicate'' no_arguments)
       \<noteq> [TextContent ''text'' ''Unknown tool: frobnicate'']"
  by (simp add: handlers_def call_tool_def call_tool_body_def)

text \<open>
  Claim C1, amended: for every name that is not one of the six registered tool names and
  every argument mapping, \<open>call_tool\<close> returns (it raises nothing) exactly one text block,
  \<open>Error: Unknown tool: {name}\<close>, and leaves the server as it was.
\<close>

theorem unknown_tool_error_block:
  assumes "name \<notin> {''get_issue_templates'', ''create_jira_issue'', ''get_jira_projects'',
                    ''search_jira_issues'', ''get_jira_issue'', ''get_project_metadata''}"
  shows "call_tool e self name args
         = ([TextContent ''text'' (''Error: Unknown tool: '' @ name)], self)"
  using handlers_unknown [OF assms] by (simp add: call_tool_def call_tool_body_def)

theorem unknown_tool_error_block_witness:
  "call_tool sample_env sample_server ''create_issue'' search_arguments
   = ([TextContent ''text'' ''Error: Unknown tool: create_issue''], sample_server)"
proof -
  have h: "''create_issue'' \<notin> {''get_issue_templates'', ''create_jira_issue'', ''get_jira_projects'',
                    ''search_jira_issues'', ''get_jira_issue'', ''get_project_metadata''}"
    by simp
  show ?thesis using unknown_tool_error_block [OF h, of sample_env sample_server search_arguments]
    by simp
qed

section \<open>A failing remote search\<close>

lemma handlers_search: "map_of handlers ''search_jira_issues'' = Some search_jira_issues_tool"
  by (simp add: handlers_def)

text \<open>
  Claim C6. Let the \<open>search_jira_issues\<close> tool reach the remote call: the client is there
  or connects, the arguments hold a query, \<open>int(max_results)\<close> gives \<open>n\<close> and the query
  string \<open>jql\<close> is built. If the remote \<open>search_issues\<close> then raises \<open>cause\<close>, \<open>call_tool\<close>
  returns the single text block \<open>Error: Failed to search Jira issues: {cause}\<close>, with the
  text of the original exception; it returns, so nothing reaches the caller.
\<close>

theorem search_failure_error_block:
  assumes "ensure_client e self = (Inr c, self')"
    and "args ''query'' = Some query"
    and "py_int (runtime e) (case args ''max_results'' of None \<Rightarrow> PInt 10 | Some v \<Rightarrow> v)
         = Inr n"
    and "search_issues_jql query (case args ''project'' of None \<Rightarrow> PNone | Some v \<Rightarrow> v) = Inr jql"
    and "jira_search_issues (jira c) jql n search_fields = Inl cause"
  shows "call_tool e self ''search_jira_issues'' args
         = ([TextContent ''text'' (''Error: Failed to search Jira issues: '' @ exn_str cause)], self')"
proof -
  have "search_issues c query (case args ''project'' of None \<Rightarrow> PNone | Some v \<Rightarrow> v) n
        = Inl (wrapped ''Failed to search Jira issues'' cause)"
    by (simp add: search_issues_def assms(4,5))
  then have "search_jira_issues_tool e self args
             = (Inl (wrapped ''Failed to search Jira issues'' cause), self')"
    by (simp add: search_jira_issues_tool_def assms(1,2,3))
  then show ?thesis
    by (simp add: call_tool_def call_tool_body_def handlers_search wrapped_def)
qed

lemma sample_connect: "connect sample_new config_all_shapes = Inr sample_jira"
  by (simp add: connect_def config_all_shapes_def sample_new_def)

lemma sample_ensure_client:
  "ensure_client sample_env sample_server
   = (Inr sample_client, sample_server\<lparr>jira_client := Some sample_client\<rparr>)"
  by (simp add: ensure_client_def sample_server_def JissueServer_init_def
      JiraClientWrapper_init_def load_config_def sample_env_def sample_connect sample_client_def)

lemma strip_login: "str_strip ''login'' = ''login''"
  by (simp add: str_strip_def lstrip.simps whitespace_def)

theorem search_failure_error_block_witness:
  "fst (call_tool sample_env sample_server ''search_jira_issues'' search_arguments)
   = [TextContent ''text'' ''Error: Failed to search Jira issues: HTTP 400'']"
proof -
  have h2: "search_arguments ''query'' = Some (PStr ''login'')"
    by (simp add: search_arguments_def)
  have h3: "py_int (runtime sample_env)
              (case search_arguments ''max_results'' of None \<Rightarrow> PInt 10 | Some v \<Rightarrow> v)
            = Inr 10"
    by (simp add: search_arguments_def)
  have h4: "search_issues_jql (PStr ''login'')
              (case search_arguments ''project'' of None \<Rightarrow> PNone | Some v \<Rightarrow> v)
            = Inr (str_join '' AND ''
                     [[CHR ''(''] @ ''summary ~ '' @ [CHR 0x22] @ ''login'' @ [CHR 0x22] @
                      '' OR description ~ '' @ [CHR 0x22] @ ''login'' @ [CHR 0x22] @ '')'',
                      ''project = PROJ''] @ '' ORDER BY updated DESC'')"
    by (simp add: search_arguments_def search_issues_jql_def text_wanted_def strip_login)
  have h5: "jira_search_issues (jira sample_client)
              (str_join '' AND ''
                     [[CHR ''(''] @ ''summary ~ '' @ [CHR 0x22] @ ''login'' @ [CHR 0x22] @
                      '' OR description ~ '' @ [CHR 0x22] @ ''login'' @ [CHR 0x22] @ '')'',
                      ''project = PROJ''] @ '' ORDER BY updated DESC'') 10 search_fields
            = Inl (Exn ''JIRAError'' ''HTTP 400'')"
    by (simp add: sample_client_def sample_jira_def)
  show ?thesis
    using search_failure_error_block [OF sample_ensure_client h2 h3 h4 h5] by simp
qed

section \<open>Construction of the search query\<close>

lemma lstrip_Nil: "lstrip ws [] = []"
proof -
  have "find (\<lambda>w. w \<noteq> [] \<and> take (length w) [] = w) ws = None"
    by (auto simp: find_None_iff)
  then show ?thesis by (simp add: lstrip.simps)
qed

lemma strip_Nil: "str_strip [] = []"
  by (simp add: str_strip_def lstrip_Nil)

lemma text_wanted_str: "text_wanted (PStr q) = Inr (str_strip q \<noteq> [])"
  by (auto simp: text_wanted_def strip_Nil)

lemma strip_space: "str_strip '' '' = []"
  by (simp add: str_strip_def lstrip.simps whitespace_def)

lemma strip_nbsp: "str_strip [CHR 0xC2, CHR 0xA0] = []"
  by (simp add: str_strip_def lstrip.simps whitespace_def)

text \<open>
  Claim C2, as stated, has a text clause for every non-empty query. It fails for a query
  of whitespace only: the guard \<open>query and query.strip()\<close> leaves the text clause out,
  and with no project the query is the unfiltered one.
\<close>

theorem search_query_counterexample:
  \<open>'' '' \<noteq> [] \<and> search_issues_jql (PStr '' '') PNone = Inr ''ORDER BY updated DESC''
   \<and> search_issues_jql (PStr '' '') PNone
       \<noteq> Inr ''(summary ~ " " OR description ~ " ") ORDER BY updated DESC''\<close>
  by (simp add: search_issues_jql_def text_wanted_str strip_space)

text \<open>
  Claim C2, amended: \<open>search_issues\<close> builds its query in exactly four cases, by whether
  \<open>query.strip()\<close> is empty (the query is empty or only whitespace) and whether the
  project is non-empty. For a query that strips to nothing with a non-empty project, it
  is the project filter alone; for a query that does not, with no project, it is the
  text clause alone, the query matched against summary and description joined by \<open>OR\<close>;
  with both, the two clauses are joined by \<open>AND\<close>; with neither, it is unfiltered. An
  empty project counts as no project. Every query built ends in
  \<open>ORDER BY updated DESC\<close>.
\<close>

theorem search_query_four_cases:
  \<open>(str_strip q = [] \<and> p \<noteq> [] \<longrightarrow>
      search_issues_jql (PStr q) (PStr p) = Inr (''project = '' @ p @ '' ORDER BY updated DESC''))
   \<and> (str_strip q \<noteq> [] \<and> pv \<in> {PNone, PStr []} \<longrightarrow>
      search_issues_jql (PStr q) pv
      = Inr (''(summary ~ "'' @ q @ ''" OR description ~ "'' @ q @ ''") ORDER BY updated DESC''))
   \<and> (str_strip q \<noteq> [] \<and> p \<noteq> [] \<longrightarrow>
      search_issues_jql (PStr q) (PStr p)
      = Inr (''(summary ~ "'' @ q @ ''" OR description ~ "'' @ q @ ''") AND project = '' @ p @
             '' ORDER BY updated DESC''))
   \<and> (str_strip q = [] \<and> pv \<in> {PNone, PStr []} \<longrightarrow>
      search_issues_jql (PStr q) pv = Inr ''ORDER BY updated DESC'')
   \<and> (\<forall>v. \<exists>front. search_issues_jql (PStr q) v = Inr (front @ ''ORDER BY updated DESC''))
   \<and> str_strip [] = []\<close>
proof -
  have last: \<open>\<exists>front. search_issues_jql (PStr q) v = Inr (front @ ''ORDER BY updated DESC'')\<close> for v
  proof (cases "str_strip q = []"; cases "truthy v")
    show "\<exists>front. search_issues_jql (PStr q) v = Inr (front @ ''ORDER BY updated DESC'')"
      if "str_strip q = []" "truthy v"
      using that
      by (intro exI [of _ "''project = '' @ fstr v @ '' ''"])
         (simp add: search_issues_jql_def text_wanted_str)
    show "\<exists>front. search_issues_jql (PStr q) v = Inr (front @ ''ORDER BY updated DESC'')"
      if "str_strip q = []" "\<not> truthy v"
      using that
      by (intro exI [of _ "[]"]) (simp add: search_issues_jql_def text_wanted_str)
    show "\<exists>front. search_issues_jql (PStr q) v = Inr (front @ ''ORDER BY updated DESC'')"
      if "str_strip q \<noteq> []" "truthy v"
      using that
      by (intro exI [of _ "[CHR ''(''] @ ''summary ~ '' @ [CHR 0x22] @ q @ [CHR 0x22] @
                           '' OR description ~ '' @ [CHR 0x22] @ q @ [CHR 0x22] @
                           '') AND project = '' @ fstr v @ '' ''"])
         (simp add: search_issues_jql_def text_wanted_str)
    show "\<exists>front. search_issues_jql (PStr q) v = Inr (front @ ''ORDER BY updated DESC'')"
      if "str_strip q \<noteq> []" "\<not> truthy v"
      using that
      by (intro exI [of _ "[CHR ''(''] @ ''summary ~ '' @ [CHR 0x22] @ q @ [CHR 0x22] @
                           '' OR description ~ '' @ [CHR 0x22] @ q @ [CHR 0x22] @ '') ''"])
         (simp add: search_issues_jql_def text_wanted_str)
  qed
  show ?thesis
    using last strip_Nil by (auto simp: search_issues_jql_def text_wanted_str)
qed

theorem search_query_four_cases_witness:
  \<open>search_issues_jql (PStr '''') (PStr ''X'') = Inr ''project = X ORDER BY updated DESC''
   \<and> search_issues_jql (PStr ''login'') PNone
       = Inr ''(summary ~ "login" OR description ~ "login") ORDER BY updated DESC''
   \<and> search_issues_jql (PStr ''login'') (PStr ''X'')
       = Inr ''(summary ~ "login" OR description ~ "login") AND project = X ORDER BY updated DESC''
   \<and> search_issues_jql (PStr '''') PNone = Inr ''ORDER BY updated DESC''
   \<and> search_issues_jql (PStr [CHR 0xC2, CHR 0xA0]) PNone = Inr ''ORDER BY updated DESC''
   \<and> search_issues_jql (PStr [CHR 0xC2, CHR 0xA0]) (PStr ''X'')
       = Inr ''project = X ORDER BY updated DESC''\<close>
proof -
  have sp: "str_strip ''login'' \<noteq> []" by (simp add: str_strip_def lstrip.simps whitespace_def)
  show ?thesis
    using search_query_four_cases [of "''''" "''X''" PNone]
      search_query_four_cases [of "''login''" "''X''" PNone]
      search_query_four_cases [of "[CHR 0xC2, CHR 0xA0]" "''X''" PNone] sp strip_nbsp
    by simp
qed

section \<open>The payload of create_issue\<close>

lemma create_issue_sends:
  "create_issue R self project issue_type summary description priority assignee
   = map_sum (wrapped ''Failed to create Jira issue'') id
       (jira_create_issue (jira self)
          (issue_dict R project issue_type summary description priority assignee))"
  by (simp add: create_issue_def split: sum.splits)

lemma issue_dict_issuetype:
  "map_of (issue_dict R project issue_type summary description priority assignee) ''issuetype''
   = Some (Name (case map_of issue_type_map (str_lower R issue_type) of
                   Some v \<Rightarrow> v | None \<Rightarrow> str_capitalize R issue_type))"
  by (simp add: issue_dict_def Let_def update_conv')

text \<open>
  Claim C3. The payload that \<open>create_issue\<close> passes to the remote call names the issue
  type so: when the lower-cased input is a key of the table story, bug, task, spike,
  epic, subtask, the name is the table's Story, Bug, Task, Spike, Epic, Sub-task; for
  every other input it is the input under \<open>capitalize\<close>, so \<open>weirdtype\<close> is sent as
  \<open>Weirdtype\<close>.
\<close>

theorem issue_type_sent:
  "create_issue R self project issue_type summary description priority assignee
   = map_sum (wrapped ''Failed to create Jira issue'') id
       (jira_create_issue (jira self)
          (issue_dict R project issue_type summary description priority assignee))
   \<and> (\<forall>k v. (k, v) \<in> set [(''story'', ''Story''), (''bug'', ''Bug''), (''task'', ''Task''),
                           (''spike'', ''Spike''), (''epic'', ''Epic''), (''subtask'', ''Sub-task'')]
            \<and> str_lower R issue_type = k \<longrightarrow>
        map_of (issue_dict R project issue_type summary description priority assignee) ''issuetype''
        = Some (Name v))
   \<and> (str_lower R issue_type \<notin> {''story'', ''bug'', ''task'', ''spike'', ''epic'', ''subtask''} \<longrightarrow>
        map_of (issue_dict R project issue_type summary description priority assignee) ''issuetype''
        = Some (Name (str_capitalize R issue_type)))
   \<and> map_of (issue_dict R project ''weirdtype'' summary description priority assignee) ''issuetype''
       = Some (Name ''Weirdtype'')"
proof -
  have cap: "str_capitalize R ''weirdtype'' = ''Weirdtype''"
    by (simp add: str_capitalize_def is_ascii_def lower_char_def upper_char_def
        ascii_uppercase_def ascii_lowercase_def)
  have low: "str_lower R ''weirdtype'' = ''weirdtype''"
    by (simp add: str_lower_def is_ascii_def lower_char_def ascii_uppercase_def
        ascii_lowercase_def)
  have 2: "\<forall>k v. (k, v) \<in> set [(''story'', ''Story''), (''bug'', ''Bug''), (''task'', ''Task''),
                           (''spike'', ''Spike''), (''epic'', ''Epic''), (''subtask'', ''Sub-task'')]
            \<and> str_lower R issue_type = k \<longrightarrow>
        map_of (issue_dict R project issue_type summary description priority assignee) ''issuetype''
        = Some (Name v)"
    by (auto simp: issue_dict_issuetype issue_type_map_def)
  have 3: "str_lower R issue_type \<notin> {''story'', ''bug'', ''task'', ''spike'', ''epic'', ''subtask''} \<longrightarrow>
        map_of (issue_dict R project issue_type summary description priority assignee) ''issuetype''
        = Some (Name (str_capitalize R issue_type))"
    by (simp add: issue_dict_issuetype issue_type_map_def)
  have 4: "map_of (issue_dict R project ''weirdtype'' summary description priority assignee) ''issuetype''
       = Some (Name ''Weirdtype'')"
    by (simp add: issue_dict_issuetype issue_type_map_def low cap)
  from create_issue_sends 2 3 4 show ?thesis by blast
qed

theorem issue_type_sent_witness:
  "map_of (issue_dict sample_runtime ''PROJ'' ''BUG'' ''s'' ''d'' None None) ''issuetype''
   = Some (Name ''Bug'')
   \<and> map_of (issue_dict sample_runtime ''PROJ'' ''SubTask'' ''s'' ''d'' None None) ''issuetype''
       = Some (Name ''Sub-task'')
   \<and> map_of (issue_dict sample_runtime ''PROJ'' ''iNCIDENT'' ''s'' ''d'' None None) ''issuetype''
       = Some (Name ''Incident'')
   \<and> map_of (issue_dict sample_runtime ''PROJ'' kelvin_task ''s'' ''d'' None None) ''issuetype''
       = Some (Name ''Task'')
   \<and> map_of (issue_dict sample_runtime ''PROJ'' eclair ''s'' ''d'' None None) ''issuetype''
       = Some (Name ([CHR 0xC3, CHR 0x89] @ ''clair''))"
proof -
  have l1: "str_lower sample_runtime ''BUG'' = ''bug''"
    by (simp add: str_lower_def is_ascii_def lower_char_def ascii_uppercase_def
        ascii_lowercase_def)
  have l2: "str_lower sample_runtime ''SubTask'' = ''subtask''"
    by (simp add: str_lower_def is_ascii_def lower_char_def ascii_uppercase_def
        ascii_lowercase_def)
  have l3: "str_lower sample_runtime ''iNCIDENT'' = ''incident''"
    by (simp add: str_lower_def is_ascii_def lower_char_def ascii_uppercase_def
        ascii_lowercase_def)
  have c3: "str_capitalize sample_runtime ''iNCIDENT'' = ''Incident''"
    by (simp add: str_capitalize_def is_ascii_def lower_char_def upper_char_def
        ascii_uppercase_def ascii_lowercase_def)
  have l4: "str_lower sample_runtime kelvin_task = ''task''"
    by (simp add: str_lower_def is_ascii_def kelvin_task_def sample_runtime_def)
  have l5: "str_lower sample_runtime eclair = eclair"
    by (simp add: str_lower_def is_ascii_def eclair_def sample_runtime_def kelvin_task_def
        lower_char_def ascii_uppercase_def ascii_lowercase_def)
  have c5: "str_capitalize sample_runtime eclair = [CHR 0xC3, CHR 0x89] @ ''clair''"
    by (simp add: str_capitalize_def is_ascii_def eclair_def sample_runtime_def)
  have n5: "eclair \<notin> {''story'', ''bug'', ''task'', ''spike'', ''epic'', ''subtask''}"
    by (simp add: eclair_def)
  show ?thesis
    using issue_type_sent [of sample_runtime sample_client "''PROJ''" "''BUG''" "''s''" "''d''" None None]
      issue_type_sent [of sample_runtime sample_client "''PROJ''" "''SubTask''" "''s''" "''d''" None None]
      issue_type_sent [of sample_runtime sample_client "''PROJ''" "''iNCIDENT''" "''s''" "''d''" None None]
      issue_type_sent [of sample_runtime sample_client "''PROJ''" kelvin_task "''s''" "''d''" None None]
      issue_type_sent [of sample_runtime sample_client "''PROJ''" eclair "''s''" "''d''" None None]
      n5
    by (simp add: l1 l2 l3 c3 l4 l5 c5)
qed

text \<open>
  Claim C7, as stated, has the priority field present whenever a priority is supplied.
  It fails for a priority supplied as the empty string: the guard \<open>if priority:\<close> leaves
  the field out.
\<close>

theorem optional_fields_counterexample:
  "''priority'' \<notin> fst ` set (issue_dict sample_runtime ''PROJ'' ''bug'' ''s'' ''d'' (Some '''') None)"
  by (simp add: issue_dict_def Let_def supplied_def)

text \<open>
  Claim C7, amended: when the priority is not supplied, or supplied as the empty string,
  the payload that \<open>create_issue\<close> passes to the remote call has no \<open>priority\<close> key at
  all; when it is supplied and not empty, the key is there with \<open>{"name": priority}\<close>.
  The same holds of the assignee.
\<close>

theorem optional_fields_sent:
  "create_issue R self project issue_type summary description priority assignee
   = map_sum (wrapped ''Failed to create Jira issue'') id
       (jira_create_issue (jira self)
          (issue_dict R project issue_type summary description priority assignee))
   \<and> (priority \<in> {None, Some []} \<longrightarrow>
        ''priority'' \<notin> fst ` set (issue_dict R project issue_type summary description priority assignee))
   \<and> (\<forall>p. priority = Some p \<and> p \<noteq> [] \<longrightarrow>
        map_of (issue_dict R project issue_type summary description priority assignee) ''priority''
        = Some (Name p))
   \<and> (assignee \<in> {None, Some []} \<longrightarrow>
        ''assignee'' \<notin> fst ` set (issue_dict R project issue_type summary description priority assignee))
   \<and> (\<forall>a. assignee = Some a \<and> a \<noteq> [] \<longrightarrow>
        map_of (issue_dict R project issue_type summary description priority assignee) ''assignee''
        = Some (Name a))"
proof -
  have 2: "priority \<in> {None, Some []} \<longrightarrow>
        ''priority'' \<notin> fst ` set (issue_dict R project issue_type summary description priority assignee)"
    by (auto simp: issue_dict_def Let_def supplied_def dom_update)
  have 3: "\<forall>p. priority = Some p \<and> p \<noteq> [] \<longrightarrow>
        map_of (issue_dict R project issue_type summary description priority assignee) ''priority''
        = Some (Name p)"
    by (auto simp: issue_dict_def Let_def supplied_def update_conv')
  have 4: "assignee \<in> {None, Some []} \<longrightarrow>
        ''assignee'' \<notin> fst ` set (issue_dict R project issue_type summary description priority assignee)"
    by (auto simp: issue_dict_def Let_def supplied_def dom_update)
  have 5: "\<forall>a. assignee = Some a \<and> a \<noteq> [] \<longrightarrow>
        map_of (issue_dict R project issue_type summary description priority assignee) ''assignee''
        = Some (Name a)"
    by (auto simp: issue_dict_def Let_def supplied_def update_conv')
  from create_issue_sends 2 3 4 5 show ?thesis by blast
qed

theorem optional_fields_sent_witness:
  "''priority'' \<notin> fst ` set (issue_dict sample_runtime ''PROJ'' ''bug'' ''s'' ''d'' None (Some ''bob''))
   \<and> map_of (issue_dict sample_runtime ''PROJ'' ''bug'' ''s'' ''d'' None (Some ''bob'')) ''assignee''
       = Some (Name ''bob'')
   \<and> ''assignee'' \<notin> fst ` set (issue_dict sample_runtime ''PROJ'' ''bug'' ''s'' ''d'' (Some ''High'') None)
   \<and> map_of (issue_dict sample_runtime ''PROJ'' ''bug'' ''s'' ''d'' (Some ''High'') None) ''priority''
       = Some (Name ''High'')"
  using optional_fields_sent [of sample_runtime sample_client "''PROJ''" "''bug''" "''s''" "''d''" None "Some ''bob''"]
    optional_fields_sent [of sample_runtime sample_client "''PROJ''" "''bug''" "''s''" "''d''" "Some ''High''" None]
  by simp

section \<open>Credential shapes and the connection\<close>

text \<open>
  Claim C4, as stated, requires exactly one credential shape. It fails: a configuration
  with all three shapes connects, by the order of precedence written in \<open>_connect\<close>.
\<close>

theorem credential_shapes_counterexample:
  "config_all_shapes ''token'' = Some (PStr ''tok'')
   \<and> config_all_shapes ''email'' = Some (PStr ''me@example.com'')
   \<and> config_all_shapes ''api_token'' = Some (PStr ''api'')
   \<and> config_all_shapes ''username'' = Some (PStr ''me'')
   \<and> config_all_shapes ''password'' = Some (PStr ''pw'')
   \<and> connect sample_new config_all_shapes = Inr sample_jira"
  by (simp add: connect_def config_all_shapes_def sample_new_def)

text \<open>
  Claim C4, amended: at least one of the three credential shapes (token; email and
  api_token; username and password) must be present, and more than one is accepted.
  Connecting with a configuration that has none of the three raises an error and never
  calls the constructor of the remote client: the \<open>ValueError\<close> of an invalid
  configuration (the \<open>KeyError\<close> of \<open>jira_url\<close> when that key is missing too), which also
  leaves \<open>JiraClientWrapper()\<close>. With \<open>jira_url\<close> and any shape present, the outcome is
  that of the constructor.
\<close>

theorem credential_shapes_required:
  "(cfg ''token'' = None \<and> (cfg ''email'' = None \<or> cfg ''api_token'' = None)
      \<and> (cfg ''username'' = None \<or> cfg ''password'' = None) \<longrightarrow>
      connect new cfg
      = Inl (case cfg ''jira_url'' of None \<Rightarrow> key_error ''jira_url'' | Some url \<Rightarrow> invalid_config)
      \<and> (config_file e = Some (Inr cfg) \<longrightarrow>
           JiraClientWrapper_init e
           = Inl (case cfg ''jira_url'' of None \<Rightarrow> key_error ''jira_url''
                  | Some url \<Rightarrow> invalid_config)))
   \<and> (cfg ''jira_url'' \<noteq> None
        \<and> (cfg ''token'' \<noteq> None \<or> (cfg ''email'' \<noteq> None \<and> cfg ''api_token'' \<noteq> None)
             \<or> (cfg ''username'' \<noteq> None \<and> cfg ''password'' \<noteq> None)) \<longrightarrow>
      (\<exists>a. connect new cfg = new a))"
proof -
  have none: "connect n cfg
      = Inl (case cfg ''jira_url'' of None \<Rightarrow> key_error ''jira_url'' | Some url \<Rightarrow> invalid_config)"
    if "cfg ''token'' = None" "cfg ''email'' = None \<or> cfg ''api_token'' = None"
       "cfg ''username'' = None \<or> cfg ''password'' = None" for n
    using that by (auto simp: connect_def Let_def split: option.splits)
  have init: "JiraClientWrapper_init e
           = Inl (case cfg ''jira_url'' of None \<Rightarrow> key_error ''jira_url''
                  | Some url \<Rightarrow> invalid_config)"
    if "cfg ''token'' = None" "cfg ''email'' = None \<or> cfg ''api_token'' = None"
       "cfg ''username'' = None \<or> cfg ''password'' = None" "config_file e = Some (Inr cfg)"
    using none [OF that(1,2,3), of "JIRA_new e"] that(4)
    by (simp add: JiraClientWrapper_init_def load_config_def)
  have some: "\<exists>a. connect new cfg = new a"
    if "cfg ''jira_url'' \<noteq> None"
       "cfg ''token'' \<noteq> None \<or> (cfg ''email'' \<noteq> None \<and> cfg ''api_token'' \<noteq> None)
             \<or> (cfg ''username'' \<noteq> None \<and> cfg ''password'' \<noteq> None)"
    using that by (auto simp: connect_def Let_def split: option.splits)
  from none init some show ?thesis by blast
qed

theorem credential_shapes_required_witness:
  "connect sample_new config_no_shape = Inl invalid_config
   \<and> JiraClientWrapper_init (sample_env\<lparr>config_file := Some (Inr config_no_shape)\<rparr>)
       = Inl invalid_config
   \<and> (\<exists>a. connect sample_new config_two_basic = sample_new a)"
  using credential_shapes_required
          [where cfg = config_no_shape and new = sample_new
             and e = "sample_env\<lparr>config_file := Some (Inr config_no_shape)\<rparr>"]
        credential_shapes_required
          [where cfg = config_two_basic and new = sample_new and e = sample_env]
  by (simp add: config_no_shape_def config_two_basic_def)

text \<open>
  Claim C10. A configuration with several credential shapes does not make \<open>_connect\<close>
  fail; the connection is whatever the constructor of the remote client gives for the
  chosen authentication. With \<open>token\<close> present it is token authentication; otherwise,
  with \<open>email\<close> and \<open>api_token\<close> both present, it is basic authentication with those;
  otherwise, with \<open>username\<close> and \<open>password\<close> both present, basic authentication with
  those. Keys of other shapes play no part in the choice.
\<close>

theorem credential_precedence:
  assumes "cfg ''jira_url'' = Some url"
  shows "(\<forall>t. cfg ''token'' = Some t \<longrightarrow>
            connect new cfg
            = new \<lparr>opt_server = url, opt_check_update = False, arg_auth = TokenAuth t,
                   arg_get_server_info = Some False,
                   arg_proxies = map_option (\<lambda>p. [(''http'', p), (''https'', p)]) (cfg ''proxy'')\<rparr>)
       \<and> (\<forall>em tok. cfg ''token'' = None \<and> cfg ''email'' = Some em \<and> cfg ''api_token'' = Some tok \<longrightarrow>
            connect new cfg
            = new \<lparr>opt_server = url, opt_check_update = False, arg_auth = BasicAuth em tok,
                   arg_get_server_info = None,
                   arg_proxies = map_option (\<lambda>p. [(''http'', p), (''https'', p)]) (cfg ''proxy'')\<rparr>)
       \<and> (\<forall>u pw. cfg ''token'' = None \<and> (cfg ''email'' = None \<or> cfg ''api_token'' = None)
                  \<and> cfg ''username'' = Some u \<and> cfg ''password'' = Some pw \<longrightarrow>
            connect new cfg
            = new \<lparr>opt_server = url, opt_check_update = False, arg_auth = BasicAuth u pw,
                   arg_get_server_info = None,
                   arg_proxies = map_option (\<lambda>p. [(''http'', p), (''https'', p)]) (cfg ''proxy'')\<rparr>)"
  using assms by (auto simp: connect_def Let_def split: option.splits)

theorem credential_precedence_witness:
  "connect sample_new config_all_shapes
   = sample_new \<lparr>opt_server = sample_url, opt_check_update = False, arg_auth = TokenAuth (PStr ''tok''),
          arg_get_server_info = Some False, arg_proxies = None\<rparr>
   \<and> connect sample_new config_two_basic
   = sample_new \<lparr>opt_server = sample_url, opt_check_update = False,
          arg_auth = BasicAuth (PStr ''me@example.com'') (PStr ''api''),
          arg_get_server_info = None, arg_proxies = None\<rparr>
   \<and> connect sample_new config_half_cloud
   = sample_new \<lparr>opt_server = sample_url, opt_check_update = False,
          arg_auth = BasicAuth (PStr ''me'') (PStr ''pw''),
          arg_get_server_info = None, arg_proxies = None\<rparr>"
proof -
  have u1: "config_all_shapes ''jira_url'' = Some sample_url" by (simp add: config_all_shapes_def)
  have u2: "config_two_basic ''jira_url'' = Some sample_url" by (simp add: config_two_basic_def)
  have u3: "config_half_cloud ''jira_url'' = Some sample_url" by (simp add: config_half_cloud_def)
  show ?thesis
    using credential_precedence [where cfg = config_all_shapes and new = sample_new, OF u1]
      credential_precedence [where cfg = config_two_basic and new = sample_new, OF u2]
      credential_precedence [where cfg = config_half_cloud and new = sample_new, OF u3]
    by (simp add: config_all_shapes_def config_two_basic_def config_half_cloud_def)
qed

section \<open>Project metadata\<close>



end
